theory Spec2Isabelle
  imports Main
begin

section \<open>Go values used by the handlers\<close>

text \<open>
  A Go string is a sequence of bytes, and \<open>len\<close> counts bytes: it is a \<open>string\<close>
  (a list of 8-bit characters) with \<open>length\<close>. Go's \<open>int\<close> is modelled by \<open>int\<close>: the
  handlers only compare and copy integers, never compute with them.
\<close>

subsection \<open>regexp: the pattern language and MatchString\<close>

text \<open>
  A character class is a list of inclusive byte ranges, as written between brackets
  in the pattern: \<open>[a-zA-Z]\<close> is \<open>[(a, z), (A, Z)]\<close>, a single character \<open>c\<close> is the
  range \<open>(c, c)\<close>.
\<close>

type_synonym char_class = "(char \<times> char) list"

definition in_class :: "char_class \<Rightarrow> char \<Rightarrow> bool" where
  "in_class cls c =
     list_ex (\<lambda>(lo, hi). (of_char lo :: nat) \<le> of_char c \<and> (of_char c :: nat) \<le> of_char hi) cls"

datatype regexp =
    NoMatch
  | EmptyMatch
  | Lit char
  | Class char_class
  | Alt regexp regexp
  | Cat regexp regexp
  | AtLeast nat regexp

text \<open>
  \<open>AtLeast n r\<close> is \<open>r{n,}\<close>; \<open>r+\<close> is \<open>AtLeast 1 r\<close> and \<open>r*\<close> is \<open>AtLeast 0 r\<close>.
  A pattern anchored by \<open>^\<close> and \<open>$\<close> (without the multi-line flag, so \<open>$\<close> is the end of
  the text) matches a string exactly when the whole string is in the language of the
  pattern between the anchors. \<open>MatchString\<close> decides that by derivatives.
\<close>

fun nullable :: "regexp \<Rightarrow> bool" where
  "nullable NoMatch = False"
| "nullable EmptyMatch = True"
| "nullable (Lit c) = False"
| "nullable (Class cls) = False"
| "nullable (Alt r s) = (nullable r \<or> nullable s)"
| "nullable (Cat r s) = (nullable r \<and> nullable s)"
| "nullable (AtLeast n r) = (n = 0 \<or> nullable r)"

fun deriv :: "char \<Rightarrow> regexp \<Rightarrow> regexp" where
  "deriv c NoMatch = NoMatch"
| "deriv c EmptyMatch = NoMatch"
| "deriv c (Lit d) = (if c = d then EmptyMatch else NoMatch)"
| "deriv c (Class cls) = (if in_class cls c then EmptyMatch else NoMatch)"
| "deriv c (Alt r s) = Alt (deriv c r) (deriv c s)"
| "deriv c (Cat r s) =
     (if nullable r then Alt (Cat (deriv c r) s) (deriv c s) else Cat (deriv c r) s)"
| "deriv c (AtLeast n r) = Cat (deriv c r) (AtLeast (n - 1) r)"

fun MatchString :: "regexp \<Rightarrow> string \<Rightarrow> bool" where
  "MatchString r [] = nullable r"
| "MatchString r (c # s) = MatchString (deriv c r) s"

text \<open>The classes of the pattern in \<open>CreateUser\<close>, and the pattern itself:
  \<^verbatim>\<open>^[a-zA-Z0-9._%+\-]+@[a-zA-Z0-9.\-]+\.[a-zA-Z]{2,}$\<close>\<close>

definition local_class :: char_class where
  "local_class =
     [(CHR ''a'', CHR ''z''), (CHR ''A'', CHR ''Z''), (CHR ''0'', CHR ''9''),
      (CHR ''.'', CHR ''.''), (CHR ''_'', CHR ''_''), (CHR ''%'', CHR ''%''),
      (CHR ''+'', CHR ''+''), (CHR ''-'', CHR ''-'')]"

definition domain_class :: char_class where
  "domain_class =
     [(CHR ''a'', CHR ''z''), (CHR ''A'', CHR ''Z''), (CHR ''0'', CHR ''9''),
      (CHR ''.'', CHR ''.''), (CHR ''-'', CHR ''-'')]"

definition letter_class :: char_class where
  "letter_class = [(CHR ''a'', CHR ''z''), (CHR ''A'', CHR ''Z'')]"

definition emailRegex :: regexp where
  "emailRegex =
     Cat (AtLeast 1 (Class local_class))
       (Cat (Lit CHR ''@'')
         (Cat (AtLeast 1 (Class domain_class))
           (Cat (Lit CHR ''.'') (AtLeast 2 (Class letter_class)))))"

subsection \<open>strings.TrimSpace\<close>

text \<open>
  \<open>strings.TrimSpace\<close> removes the leading and trailing white space of a string, where
  white space is what \<open>unicode.IsSpace\<close> accepts: the ASCII characters tab, line feed,
  vertical tab, form feed, carriage return and space, and the code points U+0085, U+00A0,
  U+1680, U+2000 to U+200A, U+2028, U+2029, U+202F, U+205F and U+3000 in their UTF-8
  encoding. \<open>space_width s\<close> is the number of bytes of the white-space character that
  \<open>s\<close> starts with, and 0 when it starts with none; \<open>space_width_rev\<close> reads the
  reversed string, so the encodings appear last byte first.
\<close>

definition asciiSpace :: "char \<Rightarrow> bool" where
  "asciiSpace c = ((of_char c :: nat) \<in> {0x09, 0x0A, 0x0B, 0x0C, 0x0D, 0x20})"

fun space_width :: "string \<Rightarrow> nat" where
  "space_width [] = 0"
| "space_width [a] = (if asciiSpace a then 1 else 0)"
| "space_width [a, b] =
     (if asciiSpace a then 1
      else if (of_char a :: nat) = 0xC2 \<and> (of_char b :: nat) \<in> {0x85, 0xA0} then 2
      else 0)"
| "space_width (a # b # c # s) =
     (if asciiSpace a then 1
      else if (of_char a :: nat) = 0xC2 \<and> (of_char b :: nat) \<in> {0x85, 0xA0} then 2
      else if (of_char a :: nat) = 0xE1 \<and> (of_char b :: nat) = 0x9A \<and> (of_char c :: nat) = 0x80
        then 3
      else if (of_char a :: nat) = 0xE2 \<and> (of_char b :: nat) = 0x80 \<and>
              ((0x80 \<le> (of_char c :: nat) \<and> (of_char c :: nat) \<le> 0x8A) \<or>
               (of_char c :: nat) \<in> {0xA8, 0xA9, 0xAF})
        then 3
      else if (of_char a :: nat) = 0xE2 \<and> (of_char b :: nat) = 0x81 \<and> (of_char c :: nat) = 0x9F
        then 3
      else if (of_char a :: nat) = 0xE3 \<and> (of_char b :: nat) = 0x80 \<and> (of_char c :: nat) = 0x80
        then 3
      else 0)"

fun space_width_rev :: "string \<Rightarrow> nat" where
  "space_width_rev [] = 0"
| "space_width_rev [a] = (if asciiSpace a then 1 else 0)"
| "space_width_rev [b, a] = (if asciiSpace b then 1 else space_width [a, b])"
| "space_width_rev (c # b # a # s) =
     (if asciiSpace c then 1
      else if space_width [b, c] = 2 then 2
      else if space_width [a, b, c] = 3 then 3
      else 0)"

function TrimLeft :: "string \<Rightarrow> string" where
  "TrimLeft s = (if space_width s = 0 then s else TrimLeft (drop (space_width s) s))"
  by pat_completeness auto
termination
proof (relation "measure length")
  show "wf (measure length)" by simp
next
  fix s :: string
  assume "space_width s \<noteq> 0"
  moreover have "space_width s \<le> length s"
    by (induction s rule: space_width.induct) auto
  ultimately show "(drop (space_width s) s, s) \<in> measure length" by simp
qed

function TrimRightRev :: "string \<Rightarrow> string" where
  "TrimRightRev s =
     (if space_width_rev s = 0 then s else TrimRightRev (drop (space_width_rev s) s))"
  by pat_completeness auto
termination
proof (relation "measure length")
  show "wf (measure length)" by simp
next
  fix s :: string
  assume "space_width_rev s \<noteq> 0"
  moreover have "space_width_rev s \<le> length s"
    by (induction s rule: space_width_rev.induct) auto
  ultimately show "(drop (space_width_rev s) s, s) \<in> measure length" by simp
qed

declare TrimLeft.simps [simp del] TrimRightRev.simps [simp del]

definition TrimSpace :: "string \<Rightarrow> string" where
  "TrimSpace s = rev (TrimRightRev (rev (TrimLeft s)))"

subsection \<open>time.Time and the RFC 3339 layout\<close>

text \<open>
  A \<open>time.Time\<close> is taken by the civil fields that \<open>Format\<close> prints (what \<open>Date\<close>,
  \<open>Clock\<close> and \<open>Zone\<close> return): the zone offset is in seconds east of UTC.
  \<open>Format time.RFC3339\<close> prints the layout \<^verbatim>\<open>2006-01-02T15:04:05Z07:00\<close>: the year
  padded to four digits, the other fields to two, and the zone as \<open>Z\<close> when the offset
  is zero, otherwise as a sign with hours and minutes. \<open>appendInt\<close> is the library's
  zero-padded decimal printer.
\<close>

record Time =
  year :: int
  month :: nat
  day :: nat
  hour :: nat
  minute :: nat
  second :: nat
  nanosecond :: nat
  zone_offset :: int

definition digit :: "nat \<Rightarrow> char" where
  "digit d = char_of (48 + d)"

function utoa :: "nat \<Rightarrow> string" where
  "utoa n = (if n < 10 then [digit n] else utoa (n div 10) @ [digit (n mod 10)])"
  by pat_completeness auto
termination
  by (relation "measure (\<lambda>n. n)") auto

declare utoa.simps [simp del]

definition appendInt :: "int \<Rightarrow> nat \<Rightarrow> string" where
  "appendInt x width =
     (let u = utoa (nat \<bar>x\<bar>)
      in (if x < 0 then ''-'' else []) @ replicate (width - length u) (CHR ''0'') @ u)"

definition quo :: "int \<Rightarrow> int \<Rightarrow> int" where
  \<comment> \<open>Go's integer division, which truncates toward zero\<close>
  "quo a b = (if a < 0 then - ((- a) div b) else a div b)"

definition format_zone :: "int \<Rightarrow> string" where
  "format_zone offset =
     (if offset = 0 then ''Z''
      else let zone = quo offset 60
           in if zone < 0
              then ''-'' @ appendInt ((- zone) div 60) 2 @ '':'' @ appendInt ((- zone) mod 60) 2
              else ''+'' @ appendInt (zone div 60) 2 @ '':'' @ appendInt (zone mod 60) 2)"

definition Format_RFC3339 :: "Time \<Rightarrow> string" where
  "Format_RFC3339 t =
     appendInt (year t) 4 @ ''-'' @ appendInt (int (month t)) 2 @ ''-''
       @ appendInt (int (day t)) 2 @ ''T''
       @ appendInt (int (hour t)) 2 @ '':'' @ appendInt (int (minute t)) 2 @ '':''
       @ appendInt (int (second t)) 2 @ format_zone (zone_offset t)"

text \<open>\<open>strconv.Itoa\<close>: the decimal form of an integer, as a client writes an identifier
  into the \<open>id\<close> query parameter.\<close>

definition Itoa :: "int \<Rightarrow> string" where
  "Itoa x = (if x < 0 then ''-'' else []) @ utoa (nat \<bar>x\<bar>)"

subsection \<open>JSON bodies and the ResponseWriter\<close>

text \<open>
  The handlers encode Go maps (\<open>map[string]string\<close> and \<open>map[string]interface{}\<close>) whose
  values are strings and integers; a body is the map that was encoded.
\<close>

datatype jval = JString string | JNumber int

type_synonym jobject = "string \<rightharpoonup> jval"

text \<open>
  An \<open>http.ResponseWriter\<close>: \<open>Header\<close> is the header map the handler can still change,
  \<open>status\<close> and \<open>sent_header\<close> are the status code and the headers of the response as
  it is sent, \<open>written\<close> are the values encoded to the body. The first \<open>WriteHeader\<close>
  fixes the status and takes the headers as they are at that moment: a later call changes
  nothing, and so does a later change of the header map. A write before any
  \<open>WriteHeader\<close> sends status 200 first. When the headers taken hold no \<open>Content-Type\<close>,
  the server fills it in at the first write from the first bytes of the body
  (\<open>http.DetectContentType\<close>), which for the JSON text of these bodies is
  \<open>text/plain; charset=utf-8\<close>.
\<close>

record ResponseWriter =
  Header :: "string \<rightharpoonup> string"
  status :: "nat option"
  sent_header :: "string \<rightharpoonup> string"
  written :: "jobject list"

definition new_ResponseWriter :: ResponseWriter where
  "new_ResponseWriter =
     \<lparr>Header = Map.empty, status = None, sent_header = Map.empty, written = []\<rparr>"

definition Header_Set :: "string \<Rightarrow> string \<Rightarrow> ResponseWriter \<Rightarrow> ResponseWriter" where
  "Header_Set k v w = w\<lparr>Header := (Header w)(k \<mapsto> v)\<rparr>"

definition WriteHeader :: "nat \<Rightarrow> ResponseWriter \<Rightarrow> ResponseWriter" where
  "WriteHeader code w =
     (if status w = None then w\<lparr>status := Some code, sent_header := Header w\<rparr> else w)"

definition StatusOK :: nat where "StatusOK = 200"
definition StatusCreated :: nat where "StatusCreated = 201"
definition StatusBadRequest :: nat where "StatusBadRequest = 400"
definition StatusNotFound :: nat where "StatusNotFound = 404"
definition StatusConflict :: nat where "StatusConflict = 409"
definition StatusInternalServerError :: nat where "StatusInternalServerError = 500"

definition sniffed_content_type :: string where
  "sniffed_content_type = ''text/plain; charset=utf-8''"

definition Encode :: "jobject \<Rightarrow> ResponseWriter \<Rightarrow> ResponseWriter" where
  "Encode v w =
     (let w1 = WriteHeader StatusOK w;
          w2 = (if written w1 = [] \<and> sent_header w1 ''Content-Type'' = None
                then w1\<lparr>sent_header := (sent_header w1)(''Content-Type'' \<mapsto> sniffed_content_type)\<rparr>
                else w1)
      in w2\<lparr>written := written w2 @ [v]\<rparr>)"

subsection \<open>database/sql: the store as seen by the handlers\<close>

text \<open>
  The store is outside the repository. A handler reaches it only through
  \<open>QueryRow(query, args...).Scan(dest...)\<close>, so the model takes \<open>QueryRow\<close> as a
  parameter: given the SQL text and the arguments it returns either an error
  (\<open>sql.ErrNoRows\<close>, or any other error with its text) or the columns of one row, and the
  next state of the store. \<open>Scan\<close> copies the columns into the destinations and fails
  when their number or types do not fit.
\<close>

datatype sqlval = VString string | VInt int | VTime Time

datatype error = ErrNoRows | Err string

type_synonym 's QueryRow = "string \<Rightarrow> sqlval list \<Rightarrow> 's \<Rightarrow> (error + sqlval list) \<times> 's"

definition Error :: "error \<Rightarrow> string" where
  "Error e = (case e of ErrNoRows \<Rightarrow> ''sql: no rows in result set'' | Err msg \<Rightarrow> msg)"

definition Scan_int :: "error + sqlval list \<Rightarrow> error + int" where
  "Scan_int r =
     (case r of
        Inl e \<Rightarrow> Inl e
      | Inr [VInt n] \<Rightarrow> Inr n
      | Inr _ \<Rightarrow> Inl (Err ''sql: Scan error''))"

definition Scan_user ::
  "error + sqlval list \<Rightarrow> error + (int \<times> string \<times> string \<times> int \<times> Time)" where
  "Scan_user r =
     (case r of
        Inl e \<Rightarrow> Inl e
      | Inr [VInt i, VString e, VString n, VInt a, VTime t] \<Rightarrow> Inr (i, e, n, a, t)
      | Inr _ \<Rightarrow> Inl (Err ''sql: Scan error''))"

text \<open>
  What a handler acts on: the response writer, the lines written by \<open>log.Printf\<close>, and
  the store.
\<close>

record 's env =
  w :: ResponseWriter
  logged :: "string list"
  db :: 's

definition start :: "'s \<Rightarrow> 's env" where
  "start s = \<lparr>w = new_ResponseWriter, logged = [], db = s\<rparr>"

definition log_Printf :: "string \<Rightarrow> 's env \<Rightarrow> 's env" where
  "log_Printf line \<sigma> = \<sigma>\<lparr>logged := logged \<sigma> @ [line]\<rparr>"

text \<open>The error exit shared by all failing branches:
  \<^verbatim>\<open>w.WriteHeader(code); json.NewEncoder(w).Encode(map[string]string{"error": msg})\<close>\<close>

definition error_response :: "nat \<Rightarrow> string \<Rightarrow> 's env \<Rightarrow> 's env" where
  "error_response code msg \<sigma> =
     \<sigma>\<lparr>w := Encode [''error'' \<mapsto> JString msg] (WriteHeader code (w \<sigma>))\<rparr>"

section \<open>The handlers\<close>

subsection \<open>Requests\<close>

text \<open>
  The anonymous struct that \<open>CreateUser\<close> decodes the body into. \<open>Decode\<close> leaves a
  field the payload does not mention at its zero value (the empty string, 0). The body of
  a request is given by what \<open>Decode\<close> makes of it: \<open>None\<close> when it returns an error,
  the filled struct otherwise.
\<close>

record request =
  Email :: string
  Password :: string
  Name :: string
  Age :: int

text \<open>\<open>r.URL.Query()\<close> is a \<open>url.Values\<close>, a map from a key to its values; \<open>Get\<close> returns
  the first value of the key, and the empty string when it has none.\<close>

type_synonym Values = "string \<rightharpoonup> string list"

definition Get :: "Values \<Rightarrow> string \<Rightarrow> string" where
  "Get v key = (case v key of None \<Rightarrow> [] | Some [] \<Rightarrow> [] | Some (x # xs) \<Rightarrow> x)"

subsection \<open>The SQL texts\<close>

definition select_id_by_email :: string where
  "select_id_by_email = ''SELECT id FROM users WHERE email = $1''"

definition insert_user :: string where
  "insert_user =
     ''INSERT INTO users (email, password_hash, name, age, created_at) '' @ [CHR 0x0A, CHR 0x09]
       @ ''          VALUES ($1, $2, $3, $4, $5) RETURNING id''"

definition select_user_by_id :: string where
  "select_user_by_id = ''SELECT id, email, name, age, created_at FROM users WHERE id = $1''"

subsection \<open>CreateUser\<close>

text \<open>\<^verbatim>\<open>fmt.Sprintf("hashed_%s", password)\<close>, the stand-in for a password hash.\<close>

definition Sprintf_hashed :: "string \<Rightarrow> string" where
  "Sprintf_hashed password = ''hashed_'' @ password"

text \<open>
  \<open>now1\<close> is what \<open>time.Now()\<close> returns when the arguments of the insert are evaluated,
  \<open>now2\<close> what it returns when the response is built.
\<close>

definition CreateUser ::
  "'s QueryRow \<Rightarrow> Time \<Rightarrow> Time \<Rightarrow> request option \<Rightarrow> 's env \<Rightarrow> 's env" where
  "CreateUser QueryRow now1 now2 body \<sigma> =
     (case body of
        None \<Rightarrow> error_response StatusBadRequest ''Invalid JSON'' \<sigma>
      | Some request \<Rightarrow>
          if \<not> MatchString emailRegex (Email request)
            then error_response StatusBadRequest ''Invalid email format'' \<sigma>
          else if length (Password request) < 8
            then error_response StatusBadRequest ''Password must be at least 8 characters'' \<sigma>
          else if TrimSpace (Name request) = []
            then error_response StatusBadRequest ''Name is required'' \<sigma>
          else if Age request < 18 \<or> Age request > 120
            then error_response StatusBadRequest ''Age must be between 18 and 120'' \<sigma>
          else
            let (row, s1) = QueryRow select_id_by_email [VString (Email request)] (db \<sigma>);
                \<sigma>1 = \<sigma>\<lparr>db := s1\<rparr>
            in case Scan_int row of
                 Inl (Err msg) \<Rightarrow>
                   error_response StatusInternalServerError ''Internal server error''
                     (log_Printf (''Database error: '' @ Error (Err msg)) \<sigma>1)
               | Inr existingID \<Rightarrow>
                   error_response StatusConflict ''User with this email already exists'' \<sigma>1
               | Inl ErrNoRows \<Rightarrow>
                   let hashedPassword = Sprintf_hashed (Password request);
                       (row2, s2) =
                         QueryRow insert_user
                           [VString (Email request), VString hashedPassword,
                            VString (Name request), VInt (Age request), VTime now1] s1;
                       \<sigma>2 = \<sigma>1\<lparr>db := s2\<rparr>
                   in case Scan_int row2 of
                        Inl err \<Rightarrow>
                          error_response StatusInternalServerError ''Failed to create user''
                            (log_Printf (''Database error: '' @ Error err) \<sigma>2)
                      | Inr userID \<Rightarrow>
                          let response =
                                [''id'' \<mapsto> JNumber userID,
                                 ''email'' \<mapsto> JString (Email request),
                                 ''name'' \<mapsto> JString (Name request),
                                 ''age'' \<mapsto> JNumber (Age request),
                                 ''created_at'' \<mapsto> JString (Format_RFC3339 now2),
                                 ''message'' \<mapsto> JString ''User created successfully'']
                          in \<sigma>2\<lparr>w := Encode response
                                       (WriteHeader StatusCreated
                                         (Header_Set ''Content-Type'' ''application/json''
                                           (w \<sigma>2)))\<rparr>)"

subsection \<open>GetUser\<close>

definition GetUser :: "'s QueryRow \<Rightarrow> Values \<Rightarrow> 's env \<Rightarrow> 's env" where
  "GetUser QueryRow query \<sigma> =
     (let userID = Get query ''id''
      in if userID = []
           then error_response StatusBadRequest ''User ID is required'' \<sigma>
         else
           let (row, s1) = QueryRow select_user_by_id [VString userID] (db \<sigma>);
               \<sigma>1 = \<sigma>\<lparr>db := s1\<rparr>
           in case Scan_user row of
                Inl ErrNoRows \<Rightarrow> error_response StatusNotFound ''User not found'' \<sigma>1
              | Inl (Err msg) \<Rightarrow>
                  error_response StatusInternalServerError ''Internal server error''
                    (log_Printf (''Database error: '' @ Error (Err msg)) \<sigma>1)
              | Inr (id', email, name, age, createdAt) \<Rightarrow>
                  let response =
                        [''id'' \<mapsto> JNumber id',
                         ''email'' \<mapsto> JString email,
                         ''name'' \<mapsto> JString name,
                         ''age'' \<mapsto> JNumber age,
                         ''created_at'' \<mapsto> JString (Format_RFC3339 createdAt)]
                  in \<sigma>1\<lparr>w := Encode response
                               (Header_Set ''Content-Type'' ''application/json'' (w \<sigma>1))\<rparr>)"

section \<open>Stores\<close>

subsection \<open>A store that records the statements it is sent\<close>

text \<open>
  \<open>recording QueryRow\<close> answers as \<open>QueryRow\<close> does and appends every statement it
  receives, with its arguments, to a list kept beside the store.
\<close>

type_synonym statement = "string \<times> sqlval list"

definition recording :: "'s QueryRow \<Rightarrow> ('s \<times> statement list) QueryRow" where
  "recording QueryRow q args =
     (\<lambda>(s, sent). let (r, s') = QueryRow q args s in (r, (s', sent @ [(q, args)])))"

subsection \<open>Stores that fail\<close>

text \<open>
  \<open>broken_QueryRow msg\<close> is a store that cannot be reached: every statement fails with
  the error \<open>msg\<close>. \<open>read_only QueryRow\<close> answers as \<open>QueryRow\<close> does, except that it
  rejects the insert.
\<close>

definition broken_QueryRow :: "string \<Rightarrow> 's QueryRow" where
  "broken_QueryRow msg q args s = (Inl (Err msg), s)"

definition read_only :: "'s QueryRow \<Rightarrow> 's QueryRow" where
  "read_only QueryRow q args s =
     (if q = insert_user then (Inl (Err ''cannot execute INSERT in a read-only transaction''), s)
      else QueryRow q args s)"

subsection \<open>The users table\<close>

text \<open>
  Modelled from the spec: the relational store is an external collaborator, of which the
  repository holds no code. Section 3 of the spec gives the columns of a \<open>users\<close> row and
  says that the store generates the identifier; section 6 says that it answers
  parameterised SELECT and INSERT statements. The table is the list of its rows in
  insertion order. A new row gets an identifier above every identifier in the table. The
  identifier of the lookup arrives as text and is read as a decimal integer, an optional
  sign followed by digits; any other text is rejected with an error, as a store does that
  compares it with an integer column.
\<close>

record user_row =
  row_id :: int
  row_email :: string
  row_password_hash :: string
  row_name :: string
  row_age :: int
  row_created_at :: Time

definition digit_val :: "char \<Rightarrow> nat option" where
  "digit_val c =
     (if (48::nat) \<le> of_char c \<and> (of_char c :: nat) \<le> 57 then Some (of_char c - 48) else None)"

fun atou_from :: "nat \<Rightarrow> string \<Rightarrow> nat option" where
  "atou_from acc [] = Some acc"
| "atou_from acc (c # s) =
     (case digit_val c of None \<Rightarrow> None | Some d \<Rightarrow> atou_from (10 * acc + d) s)"

definition atou :: "string \<Rightarrow> nat option" where
  "atou s = (if s = [] then None else atou_from 0 s)"

definition parse_int :: "string \<Rightarrow> int option" where
  "parse_int s =
     (case s of
        [] \<Rightarrow> None
      | c # r \<Rightarrow>
          if c = CHR ''-'' then map_option (\<lambda>n. - int n) (atou r)
          else if c = CHR ''+'' then map_option int (atou r)
          else map_option int (atou s))"

definition new_id :: "user_row list \<Rightarrow> int" where
  "new_id t = fold max (map row_id t) 0 + 1"

definition table_QueryRow :: "user_row list QueryRow" where
  "table_QueryRow q args t =
     (if q = select_id_by_email then
        (case args of
           [VString e] \<Rightarrow>
             (case find (\<lambda>u. row_email u = e) t of
                None \<Rightarrow> (Inl ErrNoRows, t)
              | Some u \<Rightarrow> (Inr [VInt (row_id u)], t))
         | _ \<Rightarrow> (Inl (Err ''wrong arguments''), t))
      else if q = insert_user then
        (case args of
           [VString e, VString h, VString n, VInt a, VTime c] \<Rightarrow>
             (Inr [VInt (new_id t)],
              t @ [\<lparr>row_id = new_id t, row_email = e, row_password_hash = h, row_name = n,
                     row_age = a, row_created_at = c\<rparr>])
         | _ \<Rightarrow> (Inl (Err ''wrong arguments''), t))
      else if q = select_user_by_id then
        (case args of
           [VString i] \<Rightarrow>
             (case parse_int i of
                None \<Rightarrow> (Inl (Err ''invalid input syntax for type integer''), t)
              | Some n \<Rightarrow>
                  (case find (\<lambda>u. row_id u = n) t of
                     None \<Rightarrow> (Inl ErrNoRows, t)
                   | Some u \<Rightarrow>
                       (Inr [VInt (row_id u), VString (row_email u), VString (row_name u),
                             VInt (row_age u), VTime (row_created_at u)], t)))
         | _ \<Rightarrow> (Inl (Err ''wrong arguments''), t))
      else (Inl (Err ''unknown statement''), t))"

section \<open>The claims in the words of the specification\<close>

subsection \<open>The order of the validation checks\<close>

text \<open>
  Section 4.1 of the spec lists five checks, applied in this order, each with the message
  of its failure. \<open>spec_holds\<close> gives every check the condition that \<open>CreateUser\<close> tests;
  a body that does not decode fails the first check and has no fields for the others.
  \<open>spec_first_failure\<close> is the first check of the list that fails, if any.
\<close>

datatype check = PayloadDecodes | EmailFormat | PasswordLength | NameNonEmpty | AgeRange

definition spec_checks :: "check list" where
  "spec_checks = [PayloadDecodes, EmailFormat, PasswordLength, NameNonEmpty, AgeRange]"

fun spec_holds :: "request option \<Rightarrow> check \<Rightarrow> bool" where
  "spec_holds None c = False"
| "spec_holds (Some r) PayloadDecodes = True"
| "spec_holds (Some r) EmailFormat = MatchString emailRegex (Email r)"
| "spec_holds (Some r) PasswordLength = (8 \<le> length (Password r))"
| "spec_holds (Some r) NameNonEmpty = (TrimSpace (Name r) \<noteq> [])"
| "spec_holds (Some r) AgeRange = (18 \<le> Age r \<and> Age r \<le> 120)"


definition spec_first_failure :: "request option \<Rightarrow> check option" where
  "spec_first_failure body = find (\<lambda>c. \<not> spec_holds body c) spec_checks"

subsection \<open>The strings a pattern denotes\<close>





subsection \<open>An email address in the words of the spec\<close>






subsection \<open>A timestamp in the layout of ISO 8601\<close>








subsection \<open>The length of a password in characters\<close>

text \<open>
  The spec counts the length of a password in characters. A string that the JSON decoder
  returns is valid UTF-8, in which every character is one byte that is not a continuation
  byte (\<open>0x80\<close> to \<open>0xBF\<close>) followed by continuation bytes only; so the number of
  characters is the number of bytes that are not continuation bytes.
\<close>

definition utf8_characters :: "string \<Rightarrow> nat" where
  "utf8_characters s =
     length (filter (\<lambda>c. \<not> (0x80 \<le> (of_char c :: nat) \<and> (of_char c :: nat) \<le> 0xBF)) s)"

subsection \<open>Values for the examples\<close>

definition noon :: Time where
  "noon = \<lparr>year = 2024, month = 1, day = 15, hour = 12, minute = 0, second = 0,
            nanosecond = 0, zone_offset = 0\<rparr>"

definition one_second_later :: Time where
  "one_second_later = noon\<lparr>second := 1\<rparr>"

definition ann :: request where
  "ann = \<lparr>Email = ''a@b.com'', Password = ''password123'', Name = ''Ann'', Age = 30\<rparr>"

text \<open>\<open>ann\<close> with white space around the name, and a password of seven characters, the
  last of which (e with an acute accent, U+00E9) takes two bytes.\<close>

definition ann_spaced :: request where
  "ann_spaced = ann\<lparr>Name := ''  Ann  ''\<rparr>"

definition seven_characters :: string where
  "seven_characters = ''passwo'' @ [CHR 0xC3, CHR 0xA9]"

definition bea_again :: request where
  "bea_again = ann\<lparr>Email := ''bea@example.org''\<rparr>"

definition bea_row :: user_row where
  "bea_row = \<lparr>row_id = 7, row_email = ''bea@example.org'',
               row_password_hash = ''hashed_secret99'', row_name = ''Bea'', row_age = 44,
               row_created_at = noon\<rparr>"

section \<open>Properties of the response writer\<close>

lemma start_db: "db (start s) = s"
  by (simp add: start_def)

lemma w_start: "w (start s) = new_ResponseWriter"
  by (simp add: start_def)

lemma logged_start: "logged (start s) = []"
  by (simp add: start_def)

lemma error_response_status:
  "status (w (error_response code msg (start s))) = Some code"
  by (simp add: error_response_def Encode_def WriteHeader_def start_def new_ResponseWriter_def Let_def)


lemma error_response_sent_header:
  "sent_header (w (error_response code msg (start s))) = [''Content-Type'' \<mapsto> sniffed_content_type]"
  by (simp add: error_response_def Encode_def WriteHeader_def start_def new_ResponseWriter_def Let_def)

lemma error_response_db: "db (error_response code msg \<sigma>) = db \<sigma>"
  by (simp add: error_response_def)

lemma error_response_logged: "logged (error_response code msg \<sigma>) = logged \<sigma>"
  by (simp add: error_response_def)

lemma error_after_query_status:
  "status (w (error_response code msg ((start s)\<lparr>db := s1\<rparr>))) = Some code"
  by (simp add: error_response_def Encode_def WriteHeader_def start_def
      new_ResponseWriter_def Let_def)

lemma error_after_query_written:
  "written (w (error_response code msg ((start s)\<lparr>db := s1\<rparr>))) = [[''error'' \<mapsto> JString msg]]"
  by (simp add: error_response_def Encode_def WriteHeader_def start_def
      new_ResponseWriter_def Let_def)

lemma error_after_query_sent_header:
  "sent_header (w (error_response code msg ((start s)\<lparr>db := s1\<rparr>))) = [''Content-Type'' \<mapsto> sniffed_content_type]"
  by (simp add: error_response_def Encode_def WriteHeader_def start_def
      new_ResponseWriter_def Let_def)

lemma error_after_log_status:
  "status (w (error_response code msg (log_Printf line ((start s)\<lparr>db := s1\<rparr>)))) = Some code"
  by (simp add: error_response_def Encode_def WriteHeader_def start_def log_Printf_def
      new_ResponseWriter_def Let_def)

lemma error_after_log_written:
  "written (w (error_response code msg (log_Printf line ((start s)\<lparr>db := s1\<rparr>))))
     = [[''error'' \<mapsto> JString msg]]"
  by (simp add: error_response_def Encode_def WriteHeader_def start_def log_Printf_def
      new_ResponseWriter_def Let_def)

lemma error_after_log_logged:
  "logged (error_response code msg (log_Printf line ((start s)\<lparr>db := s1\<rparr>))) = [line]"
  by (simp add: error_response_def start_def log_Printf_def)

lemma error_after_log_sent_header:
  "sent_header (w (error_response code msg (log_Printf line ((start s)\<lparr>db := s1\<rparr>))))
     = [''Content-Type'' \<mapsto> sniffed_content_type]"
  by (simp add: error_response_def Encode_def WriteHeader_def start_def log_Printf_def
      new_ResponseWriter_def Let_def)

lemma Encode_fresh:
  "Encode v (WriteHeader code (Header_Set ''Content-Type'' x new_ResponseWriter)) =
     \<lparr>Header = [''Content-Type'' \<mapsto> x], status = Some code,
      sent_header = [''Content-Type'' \<mapsto> x], written = [v]\<rparr>"
  by (simp add: Encode_def WriteHeader_def Header_Set_def new_ResponseWriter_def Let_def)

lemma Encode_implicit:
  "Encode v (Header_Set ''Content-Type'' x new_ResponseWriter) =
     \<lparr>Header = [''Content-Type'' \<mapsto> x], status = Some 200,
      sent_header = [''Content-Type'' \<mapsto> x], written = [v]\<rparr>"
  by (simp add: Encode_def WriteHeader_def Header_Set_def new_ResponseWriter_def Let_def
      StatusOK_def)

section \<open>The paths of the handlers\<close>

text \<open>
  \<open>CreateUser\<close> rejects a request exactly when some check fails; what it does after
  the checks is determined by the replies of the store.
\<close>

lemma spec_valid_iff:
  "spec_first_failure (Some r) = None \<longleftrightarrow>
     MatchString emailRegex (Email r) \<and> 8 \<le> length (Password r) \<and> TrimSpace (Name r) \<noteq> []
       \<and> 18 \<le> Age r \<and> Age r \<le> 120"
  by (auto simp add: spec_first_failure_def spec_checks_def simp del: MatchString.simps)


lemma CreateUser_valid:
  assumes "spec_first_failure (Some r) = None"
    and "QueryRow select_id_by_email [VString (Email r)] (db \<sigma>) = (row, s1)"
  shows "CreateUser QueryRow now1 now2 (Some r) \<sigma> =
     (case Scan_int row of
        Inl (Err msg) \<Rightarrow>
          error_response StatusInternalServerError ''Internal server error''
            (log_Printf (''Database error: '' @ msg) (\<sigma>\<lparr>db := s1\<rparr>))
      | Inr existingID \<Rightarrow>
          error_response StatusConflict ''User with this email already exists'' (\<sigma>\<lparr>db := s1\<rparr>)
      | Inl ErrNoRows \<Rightarrow>
          (case QueryRow insert_user
                  [VString (Email r), VString (Sprintf_hashed (Password r)), VString (Name r),
                   VInt (Age r), VTime now1] s1 of
             (row2, s2) \<Rightarrow>
               (case Scan_int row2 of
                  Inl err \<Rightarrow>
                    error_response StatusInternalServerError ''Failed to create user''
                      (log_Printf (''Database error: '' @ Error err) (\<sigma>\<lparr>db := s2\<rparr>))
                | Inr userID \<Rightarrow>
                    \<sigma>\<lparr>db := s2,
                       w := Encode
                              [''id'' \<mapsto> JNumber userID,
                               ''email'' \<mapsto> JString (Email r),
                               ''name'' \<mapsto> JString (Name r),
                               ''age'' \<mapsto> JNumber (Age r),
                               ''created_at'' \<mapsto> JString (Format_RFC3339 now2),
                               ''message'' \<mapsto> JString ''User created successfully'']
                              (WriteHeader StatusCreated
                                (Header_Set ''Content-Type'' ''application/json'' (w \<sigma>)))\<rparr>)))"
  using assms
  by (simp add: spec_valid_iff CreateUser_def Let_def Error_def
      split: sum.splits error.splits prod.splits del: MatchString.simps)

lemma CreateUser_conflict:
  assumes valid: "spec_first_failure (Some r) = None"
    and q: "QueryRow select_id_by_email [VString (Email r)] s = (Inr [VInt n], s1)"
  shows "CreateUser QueryRow now1 now2 (Some r) (start s) =
           error_response StatusConflict ''User with this email already exists''
             ((start s)\<lparr>db := s1\<rparr>)"
  using CreateUser_valid [where QueryRow = QueryRow and \<sigma> = "start s" and row = "Inr [VInt n]"
      and ?s1.0 = s1, OF valid] q
  by (simp add: start_db Scan_int_def)

lemma password_check_counts_bytes:
  "MatchString emailRegex (Email r) \<Longrightarrow>
     (spec_first_failure (Some r) = Some PasswordLength) = (length (Password r) < 8)"
  by (auto simp add: spec_first_failure_def spec_checks_def simp del: MatchString.simps)


lemma GetUser_no_id:
  "Get query ''id'' = [] \<Longrightarrow>
     GetUser QueryRow query \<sigma> = error_response StatusBadRequest ''User ID is required'' \<sigma>"
  by (simp add: GetUser_def)

lemma GetUser_query:
  assumes "Get query ''id'' \<noteq> []"
    and "QueryRow select_user_by_id [VString (Get query ''id'')] (db \<sigma>) = (row, s1)"
  shows "GetUser QueryRow query \<sigma> =
     (case Scan_user row of
        Inl ErrNoRows \<Rightarrow> error_response StatusNotFound ''User not found'' (\<sigma>\<lparr>db := s1\<rparr>)
      | Inl (Err msg) \<Rightarrow>
          error_response StatusInternalServerError ''Internal server error''
            (log_Printf (''Database error: '' @ msg) (\<sigma>\<lparr>db := s1\<rparr>))
      | Inr (id', email, name, age, createdAt) \<Rightarrow>
          \<sigma>\<lparr>db := s1,
             w := Encode
                    [''id'' \<mapsto> JNumber id',
                     ''email'' \<mapsto> JString email,
                     ''name'' \<mapsto> JString name,
                     ''age'' \<mapsto> JNumber age,
                     ''created_at'' \<mapsto> JString (Format_RFC3339 createdAt)]
                    (Header_Set ''Content-Type'' ''application/json'' (w \<sigma>))\<rparr>)"
  using assms
  by (simp add: GetUser_def Let_def Error_def split: sum.splits error.splits prod.splits)

lemma GetUser_status_cases:
  assumes "Get query ''id'' \<noteq> []"
  shows "status (w (GetUser QueryRow query (start s))) \<in> {Some 200, Some 404, Some 500}"
proof -
  obtain row s1 where q: "QueryRow select_user_by_id [VString (Get query ''id'')] (db (start s))
      = (row, s1)"
    by (cases "QueryRow select_user_by_id [VString (Get query ''id'')] (db (start s))") blast
  show ?thesis
    using GetUser_query [where QueryRow = QueryRow, OF assms q]
    by (simp add: error_after_query_status error_after_log_status w_start Encode_implicit
        StatusNotFound_def StatusInternalServerError_def
        split: sum.splits error.splits prod.splits)
qed

section \<open>MatchString decides membership in the language of the pattern\<close>














subsection \<open>The language of the email pattern\<close>











section \<open>Properties of the stores\<close>

lemma recording_apply:
  "recording QueryRow q args (s, sent) =
     (fst (QueryRow q args s), (snd (QueryRow q args s), sent @ [(q, args)]))"
  by (simp add: recording_def split: prod.splits)

lemma statements_differ:
  "select_id_by_email \<noteq> insert_user" "select_id_by_email \<noteq> select_user_by_id"
  "insert_user \<noteq> select_user_by_id"
  by (simp_all add: select_id_by_email_def insert_user_def select_user_by_id_def)

lemma table_select_id_by_email:
  "table_QueryRow select_id_by_email [VString e] t =
     (case find (\<lambda>u. row_email u = e) t of
        None \<Rightarrow> (Inl ErrNoRows, t)
      | Some u \<Rightarrow> (Inr [VInt (row_id u)], t))"
  by (simp add: table_QueryRow_def)

lemma table_insert_user:
  "table_QueryRow insert_user [VString e, VString h, VString n, VInt a, VTime c] t =
     (Inr [VInt (new_id t)],
      t @ [\<lparr>row_id = new_id t, row_email = e, row_password_hash = h, row_name = n,
             row_age = a, row_created_at = c\<rparr>])"
  using statements_differ by (simp add: table_QueryRow_def)

lemma table_select_user_by_id:
  "table_QueryRow select_user_by_id [VString i] t =
     (case parse_int i of
        None \<Rightarrow> (Inl (Err ''invalid input syntax for type integer''), t)
      | Some n \<Rightarrow>
          (case find (\<lambda>u. row_id u = n) t of
             None \<Rightarrow> (Inl ErrNoRows, t)
           | Some u \<Rightarrow>
               (Inr [VInt (row_id u), VString (row_email u), VString (row_name u),
                     VInt (row_age u), VTime (row_created_at u)], t)))"
  using statements_differ by (simp add: table_QueryRow_def)

subsection \<open>Decimal identifiers\<close>

lemma of_char_digit: "d < 10 \<Longrightarrow> (of_char (digit d) :: nat) = 48 + d"
  by (simp add: digit_def)

lemma digit_val_digit: "d < 10 \<Longrightarrow> digit_val (digit d) = Some d"
  by (simp add: digit_val_def of_char_digit)

lemma atou_from_append:
  "atou_from acc (s @ [c]) =
     (case atou_from acc s of
        None \<Rightarrow> None
      | Some m \<Rightarrow> (case digit_val c of None \<Rightarrow> None | Some d \<Rightarrow> Some (10 * m + d)))"
  by (induction s arbitrary: acc) (auto split: option.splits)

lemma atou_from_utoa: "atou_from 0 (utoa n) = Some n"
proof (induction n rule: utoa.induct)
  case (1 n)
  show ?case
  proof (cases "n < 10")
    case True
    then show ?thesis by (subst utoa.simps) (simp add: digit_val_digit)
  next
    case False
    with 1 have "atou_from 0 (utoa (n div 10)) = Some (n div 10)" by simp
    with False show ?thesis
      by (subst utoa.simps) (simp add: atou_from_append digit_val_digit)
  qed
qed

lemma utoa_starts_with_digit: "\<exists>d r. d < 10 \<and> utoa n = digit d # r"
proof (induction n rule: utoa.induct)
  case (1 n)
  show ?case
  proof (cases "n < 10")
    case True
    then show ?thesis by (subst utoa.simps) auto
  next
    case False
    with 1 obtain d r where "d < 10" "utoa (n div 10) = digit d # r" by auto
    with False show ?thesis by (subst utoa.simps) auto
  qed
qed

lemma digit_not_sign:
  assumes "d < 10"
  shows "digit d \<noteq> CHR ''-''" and "digit d \<noteq> CHR ''+''"
proof -
  have v: "(of_char (digit d) :: nat) = 48 + d" using assms by (rule of_char_digit)
  show "digit d \<noteq> CHR ''-''"
  proof
    assume "digit d = CHR ''-''"
    then have "(of_char (digit d) :: nat) = of_char CHR ''-''" by (rule arg_cong)
    with v show False by simp
  qed
  show "digit d \<noteq> CHR ''+''"
  proof
    assume "digit d = CHR ''+''"
    then have "(of_char (digit d) :: nat) = of_char CHR ''+''" by (rule arg_cong)
    with v show False by simp
  qed
qed

lemma parse_int_Itoa: "parse_int (Itoa x) = Some x"
proof -
  obtain d r where dr: "d < 10" "utoa (nat \<bar>x\<bar>) = digit d # r"
    using utoa_starts_with_digit by blast
  have ne: "utoa (nat \<bar>x\<bar>) \<noteq> []" using dr by simp
  have a: "atou (utoa (nat \<bar>x\<bar>)) = Some (nat \<bar>x\<bar>)"
    by (simp add: atou_def ne atou_from_utoa)
  show ?thesis
  proof (cases "x < 0")
    case True
    then show ?thesis using a by (simp add: Itoa_def parse_int_def)
  next
    case False
    then show ?thesis
      using a dr digit_not_sign [OF dr(1)] by (simp add: Itoa_def parse_int_def)
  qed
qed

subsection \<open>Fresh identifiers\<close>

lemma fold_max_ge: "a \<le> fold max xs (a::int)"
  by (induction xs arbitrary: a) (auto intro: order_trans [OF max.cobounded2])

lemma fold_max_mem: "x \<in> set xs \<Longrightarrow> x \<le> fold max xs (a::int)"
proof (induction xs arbitrary: a)
  case Nil
  then show ?case by simp
next
  case (Cons y ys)
  show ?case
  proof (cases "x = y")
    case True
    have "y \<le> max y a" by simp
    also have "\<dots> \<le> fold max ys (max y a)" by (rule fold_max_ge)
    finally show ?thesis using True by simp
  next
    case False
    with Cons show ?thesis by simp
  qed
qed

lemma new_id_fresh: "u \<in> set t \<Longrightarrow> row_id u < new_id t"
proof -
  assume "u \<in> set t"
  then have "row_id u \<in> set (map row_id t)" by simp
  then have "row_id u \<le> fold max (map row_id t) 0" by (rule fold_max_mem)
  then show ?thesis by (simp add: new_id_def)
qed

lemma find_append_list:
  "find P (xs @ ys) = (case find P xs of None \<Rightarrow> find P ys | Some x \<Rightarrow> Some x)"
  by (induction xs) auto

lemma find_new_row:
  "row_id v = new_id t \<Longrightarrow> find (\<lambda>u. row_id u = new_id t) (t @ [v]) = Some v"
proof -
  assume v: "row_id v = new_id t"
  have "find (\<lambda>u. row_id u = new_id t) t = None"
    using new_id_fresh [of _ t] by (fastforce simp add: find_None_iff)
  then show ?thesis using v by (simp add: find_append_list)
qed

subsection \<open>Registration and lookup on the users table\<close>

lemma CreateUser_table_created:
  assumes valid: "spec_first_failure (Some r) = None"
    and fresh: "Email r \<notin> set (map row_email t)"
  shows "CreateUser table_QueryRow now1 now2 (Some r) (start t) =
     (start t)\<lparr>db := t @ [\<lparr>row_id = new_id t, row_email = Email r,
                             row_password_hash = Sprintf_hashed (Password r), row_name = Name r,
                             row_age = Age r, row_created_at = now1\<rparr>],
                w := \<lparr>Header = [''Content-Type'' \<mapsto> ''application/json''],
                      status = Some 201,
                      sent_header = [''Content-Type'' \<mapsto> ''application/json''],
                      written = [[''id'' \<mapsto> JNumber (new_id t),
                                  ''email'' \<mapsto> JString (Email r),
                                  ''name'' \<mapsto> JString (Name r),
                                  ''age'' \<mapsto> JNumber (Age r),
                                  ''created_at'' \<mapsto> JString (Format_RFC3339 now2),
                                  ''message'' \<mapsto> JString ''User created successfully'']]\<rparr>\<rparr>"
proof -
  have none: "find (\<lambda>u. row_email u = Email r) t = None"
    using fresh by (force simp add: find_None_iff)
  have q: "table_QueryRow select_id_by_email [VString (Email r)] (db (start t))
             = (Inl ErrNoRows, t)"
    by (simp add: table_select_id_by_email none start_db)
  show ?thesis
    using CreateUser_valid [where QueryRow = table_QueryRow and \<sigma> = "start t", OF valid q]
    by (simp add: Scan_int_def table_insert_user w_start Encode_fresh StatusCreated_def)
qed

lemma GetUser_table_found:
  assumes "find (\<lambda>u. row_id u = i) t = Some u"
  shows "GetUser table_QueryRow [''id'' \<mapsto> [Itoa i]] (start t) =
     (start t)\<lparr>db := t,
                w := \<lparr>Header = [''Content-Type'' \<mapsto> ''application/json''],
                      status = Some 200,
                      sent_header = [''Content-Type'' \<mapsto> ''application/json''],
                      written = [[''id'' \<mapsto> JNumber (row_id u),
                                  ''email'' \<mapsto> JString (row_email u),
                                  ''name'' \<mapsto> JString (row_name u),
                                  ''age'' \<mapsto> JNumber (row_age u),
                                  ''created_at'' \<mapsto>
                                    JString (Format_RFC3339 (row_created_at u))]]\<rparr>\<rparr>"
proof -
  obtain d r where dr: "d < 10" "utoa (nat \<bar>i\<bar>) = digit d # r"
    using utoa_starts_with_digit by blast
  then have ne: "Itoa i \<noteq> []" by (simp add: Itoa_def)
  have g: "Get [''id'' \<mapsto> [Itoa i]] ''id'' = Itoa i" by (simp add: Get_def)
  have q: "table_QueryRow select_user_by_id [VString (Get [''id'' \<mapsto> [Itoa i]] ''id'')]
             (db (start t))
           = (Inr [VInt (row_id u), VString (row_email u), VString (row_name u),
                   VInt (row_age u), VTime (row_created_at u)], t)"
    by (simp add: g table_select_user_by_id parse_int_Itoa assms start_db)
  have g': "Get [''id'' \<mapsto> [Itoa i]] ''id'' \<noteq> []" using ne g by simp
  show ?thesis
    using GetUser_query [where query = "[''id'' \<mapsto> [Itoa i]]" and QueryRow = table_QueryRow
        and \<sigma> = "start t", OF g' q]
    by (simp add: Scan_user_def w_start Encode_implicit)
qed

lemma register_then_lookup:
  assumes valid: "spec_first_failure (Some r) = None"
    and fresh: "Email r \<notin> set (map row_email t)"
  shows "written (w (CreateUser table_QueryRow ta tb (Some r) (start t)))
           = [[''id'' \<mapsto> JNumber (new_id t), ''email'' \<mapsto> JString (Email r),
               ''name'' \<mapsto> JString (Name r), ''age'' \<mapsto> JNumber (Age r),
               ''created_at'' \<mapsto> JString (Format_RFC3339 tb),
               ''message'' \<mapsto> JString ''User created successfully'']]
       \<and> status (w (CreateUser table_QueryRow ta tb (Some r) (start t))) = Some 201
       \<and> status (w (GetUser table_QueryRow [''id'' \<mapsto> [Itoa (new_id t)]]
                       (start (db (CreateUser table_QueryRow ta tb (Some r) (start t))))))
           = Some 200
       \<and> written (w (GetUser table_QueryRow [''id'' \<mapsto> [Itoa (new_id t)]]
                       (start (db (CreateUser table_QueryRow ta tb (Some r) (start t))))))
           = [[''id'' \<mapsto> JNumber (new_id t), ''email'' \<mapsto> JString (Email r),
               ''name'' \<mapsto> JString (Name r), ''age'' \<mapsto> JNumber (Age r),
               ''created_at'' \<mapsto> JString (Format_RFC3339 ta)]]"
proof -
  let ?row = "\<lparr>row_id = new_id t, row_email = Email r,
                 row_password_hash = Sprintf_hashed (Password r), row_name = Name r,
                 row_age = Age r, row_created_at = ta\<rparr>"
  have f: "find (\<lambda>u. row_id u = new_id t) (t @ [?row]) = Some ?row"
    by (rule find_new_row) simp
  show ?thesis
    by (simp add: CreateUser_table_created [OF valid fresh] GetUser_table_found [OF f])
qed

section \<open>The layout of a formatted time\<close>













section \<open>The examples\<close>



lemma a_b_com: "MatchString emailRegex ''a@b.com''"
  by (simp add: emailRegex_def local_class_def domain_class_def letter_class_def in_class_def)

lemma TrimSpace_Ann: "TrimSpace ''Ann'' = ''Ann''"
  by (simp add: TrimSpace_def TrimLeft.simps TrimRightRev.simps asciiSpace_def)

lemma TrimSpace_spaced_Ann: "TrimSpace ''  Ann  '' = ''Ann''"
  by code_simp

lemma ann_valid: "spec_first_failure (Some ann) = None"
  by (simp add: spec_valid_iff ann_def a_b_com TrimSpace_Ann del: MatchString.simps)

lemma ann_spaced_valid: "spec_first_failure (Some ann_spaced) = None"
  by (simp add: spec_valid_iff ann_spaced_def ann_def a_b_com TrimSpace_spaced_Ann
      del: MatchString.simps)

lemma bea_again_valid: "spec_first_failure (Some bea_again) = None"
proof -
  have "MatchString emailRegex ''bea@example.org''"
    by (simp add: emailRegex_def local_class_def domain_class_def letter_class_def in_class_def)
  then show ?thesis
    by (simp add: spec_valid_iff bea_again_def ann_def TrimSpace_Ann del: MatchString.simps)
qed

lemma Format_noon: "Format_RFC3339 noon = ''2024-01-15T12:00:00Z''"
  by code_simp

lemma Format_noon1: "Format_RFC3339 one_second_later = ''2024-01-15T12:00:01Z''"
  by code_simp

lemma Itoa_1: "Itoa 1 = ''1''"
  by code_simp

lemma new_id_empty: "new_id [] = 1"
  by (simp add: new_id_def)


lemma table_lookup_8:
  "table_QueryRow select_user_by_id [VString ''8''] [bea_row] = (Inl ErrNoRows, [bea_row])"
  by (simp add: table_select_user_by_id parse_int_def atou_def digit_val_def bea_row_def)

lemma table_lookup_abc:
  "table_QueryRow select_user_by_id [VString ''abc''] t
     = (Inl (Err ''invalid input syntax for type integer''), t)"
  by (simp add: table_select_user_by_id parse_int_def atou_def digit_val_def)

section \<open>The claims\<close>

subsection \<open>C1: validation short-circuits before any store operation\<close>



subsection \<open>C2: a duplicate email is a conflict\<close>

text \<open>
  Claim C2. When a valid payload carries the email of a row of the users table, the
  response is 409 with the error \<open>User with this email already exists\<close>; the table is
  unchanged, and the only statement sent to the store is the existence check: no insert.
\<close>

theorem C2_duplicate_email_conflict:
  assumes valid: "spec_first_failure (Some r) = None"
    and dup: "Email r \<in> set (map row_email t)"
  shows "status (w (CreateUser table_QueryRow now1 now2 (Some r) (start t))) = Some 409
       \<and> written (w (CreateUser table_QueryRow now1 now2 (Some r) (start t)))
           = [[''error'' \<mapsto> JString ''User with this email already exists'']]
       \<and> db (CreateUser table_QueryRow now1 now2 (Some r) (start t)) = t
       \<and> db (CreateUser (recording table_QueryRow) now1 now2 (Some r) (start (t, [])))
           = (t, [(select_id_by_email, [VString (Email r)])])"
proof -
  from dup obtain u where u: "find (\<lambda>u. row_email u = Email r) t = Some u"
    by (cases "find (\<lambda>u. row_email u = Email r) t") (force simp add: find_None_iff)+
  have q: "table_QueryRow select_id_by_email [VString (Email r)] t = (Inr [VInt (row_id u)], t)"
    by (simp add: table_select_id_by_email u)
  have q': "recording table_QueryRow select_id_by_email [VString (Email r)] (t, [])
              = (Inr [VInt (row_id u)], (t, [(select_id_by_email, [VString (Email r)])]))"
    by (simp add: recording_apply q)
  note c1 = CreateUser_conflict [where QueryRow = table_QueryRow, OF valid q]
  note c2 = CreateUser_conflict [where QueryRow = "recording table_QueryRow", OF valid q']
  show ?thesis
    by (simp add: c1 c2 error_after_query_status error_after_query_written error_response_db
        StatusConflict_def)
qed

theorem C2_duplicate_email_conflict_witness:
  "status (w (CreateUser table_QueryRow noon noon (Some ann)
                (start [\<lparr>row_id = 7, row_email = ''a@b.com'', row_password_hash = ''hashed_x'',
                          row_name = ''Bea'', row_age = 44, row_created_at = noon\<rparr>]))) = Some 409
   \<and> db (CreateUser (recording table_QueryRow) noon noon (Some ann)
            (start ([\<lparr>row_id = 7, row_email = ''a@b.com'', row_password_hash = ''hashed_x'',
                       row_name = ''Bea'', row_age = 44, row_created_at = noon\<rparr>], [])))
       = ([\<lparr>row_id = 7, row_email = ''a@b.com'', row_password_hash = ''hashed_x'',
              row_name = ''Bea'', row_age = 44, row_created_at = noon\<rparr>],
          [(select_id_by_email, [VString ''a@b.com''])])"
proof -
  have dup: "Email ann \<in> set (map row_email
      [\<lparr>row_id = 7, row_email = ''a@b.com'', row_password_hash = ''hashed_x'',
         row_name = ''Bea'', row_age = 44, row_created_at = noon\<rparr>])"
    by (simp add: ann_def)
  have e: "Email ann = ''a@b.com''" by (simp add: ann_def)
  from C2_duplicate_email_conflict [OF ann_valid dup, of noon noon] e
  show ?thesis by simp
qed

subsection \<open>C3: registration followed by lookup\<close>

text \<open>
  Claim C3, evaluated at the payload of the spec on an empty table. The insert reads the
  clock at 12:00:00 and the response is built one second later. Registration answers 201
  with the identifier 1; the lookup of \<open>1\<close> answers with the same id, email, name and
  age, but with the \<open>created_at\<close> of the stored row, 12:00:00, where the 201 response
  carried 12:00:01: \<open>CreateUser\<close> reads the clock a second time for its response
  instead of returning the timestamp it stored. (\<open>register_then_lookup\<close> above has the
  general statement: the two \<open>created_at\<close> fields are the two readings of the clock.)
\<close>

theorem C3_created_at_differs:
  "written (w (CreateUser table_QueryRow noon one_second_later (Some ann) (start [])))
     = [[''id'' \<mapsto> JNumber 1, ''email'' \<mapsto> JString ''a@b.com'', ''name'' \<mapsto> JString ''Ann'',
         ''age'' \<mapsto> JNumber 30, ''created_at'' \<mapsto> JString ''2024-01-15T12:00:01Z'',
         ''message'' \<mapsto> JString ''User created successfully'']]
   \<and> written (w (GetUser table_QueryRow [''id'' \<mapsto> [''1'']]
        (start (db (CreateUser table_QueryRow noon one_second_later (Some ann) (start []))))))
     = [[''id'' \<mapsto> JNumber 1, ''email'' \<mapsto> JString ''a@b.com'', ''name'' \<mapsto> JString ''Ann'',
         ''age'' \<mapsto> JNumber 30, ''created_at'' \<mapsto> JString ''2024-01-15T12:00:00Z'']]"
proof -
  have fresh: "Email ann \<notin> set (map row_email [])" by simp
  have a: "Email ann = ''a@b.com''" "Name ann = ''Ann''" "Age ann = 30"
    by (simp_all add: ann_def)
  from register_then_lookup [OF ann_valid fresh, of noon one_second_later]
  show ?thesis
    by (simp add: new_id_empty Itoa_1 Format_noon Format_noon1 a)
qed

subsection \<open>C4: the name that is stored\<close>

text \<open>
  Claim C4 as stated fails: for the valid payload \<open>ann_spaced\<close>, whose name is \<open>Ann\<close>
  between two spaces on either side, the row inserted has the name with its spaces, which
  is not the trimmed name.
\<close>

theorem C4_counterexample:
  "spec_first_failure (Some ann_spaced) = None
   \<and> db (CreateUser table_QueryRow noon noon (Some ann_spaced) (start []))
       = [\<lparr>row_id = 1, row_email = ''a@b.com'', row_password_hash = ''hashed_password123'',
            row_name = ''  Ann  '', row_age = 30, row_created_at = noon\<rparr>]
   \<and> TrimSpace (Name ann_spaced) = ''Ann''
   \<and> row_name (last (db (CreateUser table_QueryRow noon noon (Some ann_spaced) (start []))))
       \<noteq> TrimSpace (Name ann_spaced)"
proof -
  have fresh: "Email ann_spaced \<notin> set (map row_email [])" by simp
  have n: "Name ann_spaced = ''  Ann  ''" by (simp add: ann_spaced_def)
  have d: "db (CreateUser table_QueryRow noon noon (Some ann_spaced) (start []))
       = [\<lparr>row_id = 1, row_email = ''a@b.com'', row_password_hash = ''hashed_password123'',
            row_name = ''  Ann  '', row_age = 30, row_created_at = noon\<rparr>]"
    unfolding CreateUser_table_created [OF ann_spaced_valid fresh]
    by (simp add: ann_spaced_def ann_def new_id_empty Sprintf_hashed_def)
  show ?thesis
    by (simp add: ann_spaced_valid d n TrimSpace_spaced_Ann)
qed

text \<open>
  Claim C4, amended. For every registration that passes validation and the duplicate
  check, the name sent with the insert, and so the name of the row inserted, is the
  submitted name unchanged: \<open>TrimSpace\<close> is applied only in the check that the name is
  not empty.
\<close>

theorem C4_name_stored_as_submitted:
  assumes valid: "spec_first_failure (Some r) = None"
    and fresh: "Email r \<notin> set (map row_email t)"
  shows "db (CreateUser (recording table_QueryRow) ta tb (Some r) (start (t, [])))
           = (t @ [\<lparr>row_id = new_id t, row_email = Email r,
                     row_password_hash = Sprintf_hashed (Password r), row_name = Name r,
                     row_age = Age r, row_created_at = ta\<rparr>],
              [(select_id_by_email, [VString (Email r)]),
               (insert_user,
                [VString (Email r), VString (Sprintf_hashed (Password r)), VString (Name r),
                 VInt (Age r), VTime ta])])"
proof -
  have none: "find (\<lambda>u. row_email u = Email r) t = None"
    using fresh by (force simp add: find_None_iff)
  have q: "recording table_QueryRow select_id_by_email [VString (Email r)] (db (start (t, [])))
             = (Inl ErrNoRows, (t, [(select_id_by_email, [VString (Email r)])]))"
    by (simp add: recording_apply table_select_id_by_email none start_db)
  show ?thesis
    using CreateUser_valid [where QueryRow = "recording table_QueryRow"
        and \<sigma> = "start (t, [])", OF valid q]
    by (simp add: Scan_int_def recording_apply table_insert_user)
qed

theorem C4_name_stored_as_submitted_witness:
  "db (CreateUser (recording table_QueryRow) noon noon (Some ann_spaced) (start ([], [])))
     = ([\<lparr>row_id = 1, row_email = ''a@b.com'', row_password_hash = ''hashed_password123'',
            row_name = ''  Ann  '', row_age = 30, row_created_at = noon\<rparr>],
        [(select_id_by_email, [VString ''a@b.com'']),
         (insert_user,
          [VString ''a@b.com'', VString ''hashed_password123'', VString ''  Ann  '',
           VInt 30, VTime noon])])"
proof -
  have fresh: "Email ann_spaced \<notin> set (map row_email [])" by simp
  from C4_name_stored_as_submitted [OF ann_spaced_valid fresh, of noon noon]
  show ?thesis
    by (simp add: ann_spaced_def ann_def new_id_empty Sprintf_hashed_def)
qed

subsection \<open>C5: the responses of the lookup\<close>



subsection \<open>C6: the length of the password\<close>

text \<open>
  Claim C6, evaluated at a password of seven characters. \<open>len\<close> counts bytes, so a
  password of seven characters, one of which takes two bytes in UTF-8, has length 8 and
  passes the check that the claim (and the error message of the check, \<open>Password must be
  at least 8 characters\<close>) says rejects it: registration succeeds with 201.
  \<open>password_check_counts_bytes\<close> states what the check does decide.
\<close>

theorem C6_seven_characters_accepted:
  "utf8_characters seven_characters = 7
   \<and> length seven_characters = 8
   \<and> spec_first_failure (Some (ann\<lparr>Password := seven_characters\<rparr>)) = None
   \<and> status (w (CreateUser table_QueryRow noon noon
                  (Some (ann\<lparr>Password := seven_characters\<rparr>)) (start []))) = Some 201"
proof -
  have v: "spec_first_failure (Some (ann\<lparr>Password := seven_characters\<rparr>)) = None"
    by (simp add: spec_valid_iff ann_def a_b_com TrimSpace_Ann seven_characters_def
        del: MatchString.simps)
  have fresh: "Email (ann\<lparr>Password := seven_characters\<rparr>) \<notin> set (map row_email [])" by simp
  show ?thesis
    by (simp add: v CreateUser_table_created [OF v fresh])
      (simp add: utf8_characters_def seven_characters_def)
qed

subsection \<open>C7: the format of an email address\<close>



subsection \<open>C8: the content type of the responses\<close>

text \<open>
  Claim C8, evaluated on error responses. Both handlers set \<open>Content-Type\<close> only on
  their success path, right before the status line is written (\<open>CreateUser_table_created\<close>
  and \<open>GetUser_table_found\<close> above show the header on the 201 and on the 200 response).
  On every error path \<open>WriteHeader\<close> is called with a header map that holds no
  \<open>Content-Type\<close>, and the body is written next: the 400, 404, 409 and 500 responses
  below do not carry \<open>application/json\<close> but the content type that the server fills in.
\<close>

theorem C8_error_responses_lack_content_type:
  "status (w (CreateUser QueryRow ta tb None (start s))) = Some 400
   \<and> sent_header (w (CreateUser QueryRow ta tb None (start s))) ''Content-Type''
       = Some ''text/plain; charset=utf-8''
   \<and> status (w (GetUser QueryRow Map.empty (start s))) = Some 400
   \<and> sent_header (w (GetUser QueryRow Map.empty (start s))) ''Content-Type''
       = Some ''text/plain; charset=utf-8''
   \<and> status (w (GetUser table_QueryRow [''id'' \<mapsto> [''8'']] (start [bea_row]))) = Some 404
   \<and> sent_header (w (GetUser table_QueryRow [''id'' \<mapsto> [''8'']] (start [bea_row])))
        ''Content-Type'' = Some ''text/plain; charset=utf-8''
   \<and> status (w (CreateUser table_QueryRow ta tb (Some bea_again) (start [bea_row]))) = Some 409
   \<and> sent_header (w (CreateUser table_QueryRow ta tb (Some bea_again) (start [bea_row])))
        ''Content-Type'' = Some ''text/plain; charset=utf-8''
   \<and> status (w (GetUser table_QueryRow [''id'' \<mapsto> [''abc'']] (start [bea_row]))) = Some 500
   \<and> sent_header (w (GetUser table_QueryRow [''id'' \<mapsto> [''abc'']] (start [bea_row])))
        ''Content-Type'' = Some ''text/plain; charset=utf-8''"
proof -
  have g0: "Get Map.empty ''id'' = []" by (simp add: Get_def)
  have g8: "Get [''id'' \<mapsto> [''8'']] ''id'' \<noteq> []" and ga: "Get [''id'' \<mapsto> [''abc'']] ''id'' \<noteq> []"
    by (simp_all add: Get_def)
  have q8: "table_QueryRow select_user_by_id [VString (Get [''id'' \<mapsto> [''8'']] ''id'')]
              (db (start [bea_row])) = (Inl ErrNoRows, [bea_row])"
    by (simp add: Get_def table_lookup_8 start_db)
  have qa: "table_QueryRow select_user_by_id [VString (Get [''id'' \<mapsto> [''abc'']] ''id'')]
              (db (start [bea_row]))
            = (Inl (Err ''invalid input syntax for type integer''), [bea_row])"
    by (simp add: Get_def table_lookup_abc start_db)
  have qb: "table_QueryRow select_id_by_email [VString (Email bea_again)] [bea_row]
              = (Inr [VInt 7], [bea_row])"
    by (simp add: table_select_id_by_email bea_again_def bea_row_def)
  have c: "CreateUser QueryRow ta tb None (start s)
             = error_response StatusBadRequest ''Invalid JSON'' (start s)"
    by (simp add: CreateUser_def)
  have e8: "GetUser table_QueryRow [''id'' \<mapsto> [''8'']] (start [bea_row])
      = error_response StatusNotFound ''User not found'' ((start [bea_row])\<lparr>db := [bea_row]\<rparr>)"
    using GetUser_query [where QueryRow = table_QueryRow, OF g8 q8]
    by (simp add: Scan_user_def)
  have ea: "GetUser table_QueryRow [''id'' \<mapsto> [''abc'']] (start [bea_row])
      = error_response StatusInternalServerError ''Internal server error''
          (log_Printf (''Database error: '' @ ''invalid input syntax for type integer'')
            ((start [bea_row])\<lparr>db := [bea_row]\<rparr>))"
    using GetUser_query [where QueryRow = table_QueryRow, OF ga qa]
    by (simp add: Scan_user_def)
  note eb = CreateUser_conflict [where QueryRow = table_QueryRow and ?now1.0 = ta
      and ?now2.0 = tb, OF bea_again_valid qb]
  show ?thesis
    unfolding c e8 ea eb GetUser_no_id [OF g0]
    by (simp add: error_response_status error_response_sent_header error_after_query_status
        error_after_query_sent_header error_after_log_status error_after_log_sent_header
        StatusBadRequest_def StatusNotFound_def StatusInternalServerError_def
        StatusConflict_def sniffed_content_type_def)
qed

subsection \<open>C9: storage failures are answered with a fixed message\<close>

text \<open>
  Claim C9. When the existence check, the insert or the lookup query fails with an error
  (for the insert: any error; for the two queries: any error but \<open>sql.ErrNoRows\<close>), the
  answer is 500 and its body is \<open>Internal server error\<close>, or \<open>Failed to create user\<close>
  for the insert, whatever the text of the error is: the text goes to the log only.
\<close>

theorem C9_storage_failure_is_generic:
  "(spec_first_failure (Some r) = None \<and>
      QueryRow select_id_by_email [VString (Email r)] s = (reply, sa) \<and>
      Scan_int reply = Inl (Err msg) \<longrightarrow>
        status (w (CreateUser QueryRow ta tb (Some r) (start s))) = Some 500 \<and>
        written (w (CreateUser QueryRow ta tb (Some r) (start s)))
          = [[''error'' \<mapsto> JString ''Internal server error'']] \<and>
        logged (CreateUser QueryRow ta tb (Some r) (start s)) = [''Database error: '' @ msg])
   \<and> (spec_first_failure (Some r) = None \<and>
      QueryRow select_id_by_email [VString (Email r)] s = (reply, sa) \<and>
      Scan_int reply = Inl ErrNoRows \<and>
      QueryRow insert_user
        [VString (Email r), VString (Sprintf_hashed (Password r)), VString (Name r),
         VInt (Age r), VTime ta] sa = (replyb, sb) \<and>
      Scan_int replyb = Inl err \<longrightarrow>
        status (w (CreateUser QueryRow ta tb (Some r) (start s))) = Some 500 \<and>
        written (w (CreateUser QueryRow ta tb (Some r) (start s)))
          = [[''error'' \<mapsto> JString ''Failed to create user'']] \<and>
        logged (CreateUser QueryRow ta tb (Some r) (start s))
          = [''Database error: '' @ Error err])
   \<and> (Get query ''id'' \<noteq> [] \<and>
      QueryRow select_user_by_id [VString (Get query ''id'')] s = (replyc, sc) \<and>
      Scan_user replyc = Inl (Err msgc) \<longrightarrow>
        status (w (GetUser QueryRow query (start s))) = Some 500 \<and>
        written (w (GetUser QueryRow query (start s)))
          = [[''error'' \<mapsto> JString ''Internal server error'']] \<and>
        logged (GetUser QueryRow query (start s)) = [''Database error: '' @ msgc])"
proof (intro conjI impI)
  assume a: "spec_first_failure (Some r) = None \<and>
      QueryRow select_id_by_email [VString (Email r)] s = (reply, sa) \<and>
      Scan_int reply = Inl (Err msg)"
  then have e: "CreateUser QueryRow ta tb (Some r) (start s) =
      error_response StatusInternalServerError ''Internal server error''
        (log_Printf (''Database error: '' @ msg) ((start s)\<lparr>db := sa\<rparr>))"
    using CreateUser_valid [of r QueryRow "start s" reply sa ta tb]
    by (simp add: start_db)
  show "status (w (CreateUser QueryRow ta tb (Some r) (start s))) = Some 500"
    by (simp add: e error_after_log_status StatusInternalServerError_def)
  show "written (w (CreateUser QueryRow ta tb (Some r) (start s)))
          = [[''error'' \<mapsto> JString ''Internal server error'']]"
    by (simp add: e error_after_log_written)
  show "logged (CreateUser QueryRow ta tb (Some r) (start s)) = [''Database error: '' @ msg]"
    by (simp add: e error_after_log_logged)
next
  assume a: "spec_first_failure (Some r) = None \<and>
      QueryRow select_id_by_email [VString (Email r)] s = (reply, sa) \<and>
      Scan_int reply = Inl ErrNoRows \<and>
      QueryRow insert_user
        [VString (Email r), VString (Sprintf_hashed (Password r)), VString (Name r),
         VInt (Age r), VTime ta] sa = (replyb, sb) \<and>
      Scan_int replyb = Inl err"
  then have e: "CreateUser QueryRow ta tb (Some r) (start s) =
      error_response StatusInternalServerError ''Failed to create user''
        (log_Printf (''Database error: '' @ Error err) ((start s)\<lparr>db := sb\<rparr>))"
    using CreateUser_valid [of r QueryRow "start s" reply sa ta tb]
    by (simp add: start_db)
  show "status (w (CreateUser QueryRow ta tb (Some r) (start s))) = Some 500"
    by (simp add: e error_after_log_status StatusInternalServerError_def)
  show "written (w (CreateUser QueryRow ta tb (Some r) (start s)))
          = [[''error'' \<mapsto> JString ''Failed to create user'']]"
    by (simp add: e error_after_log_written)
  show "logged (CreateUser QueryRow ta tb (Some r) (start s))
          = [''Database error: '' @ Error err]"
    by (simp add: e error_after_log_logged)
next
  assume a: "Get query ''id'' \<noteq> [] \<and>
      QueryRow select_user_by_id [VString (Get query ''id'')] s = (replyc, sc) \<and>
      Scan_user replyc = Inl (Err msgc)"
  then have e: "GetUser QueryRow query (start s) =
      error_response StatusInternalServerError ''Internal server error''
        (log_Printf (''Database error: '' @ msgc) ((start s)\<lparr>db := sc\<rparr>))"
    using GetUser_query [of query QueryRow "start s" replyc sc]
    by (simp add: start_db)
  show "status (w (GetUser QueryRow query (start s))) = Some 500"
    by (simp add: e error_after_log_status StatusInternalServerError_def)
  show "written (w (GetUser QueryRow query (start s)))
          = [[''error'' \<mapsto> JString ''Internal server error'']]"
    by (simp add: e error_after_log_written)
  show "logged (GetUser QueryRow query (start s)) = [''Database error: '' @ msgc]"
    by (simp add: e error_after_log_logged)
qed

theorem C9_storage_failure_is_generic_witness:
  "status (w (CreateUser (broken_QueryRow ''dial tcp 10.0.0.5:5432: connection refused'')
                noon noon (Some ann) (start ([] :: user_row list)))) = Some 500
   \<and> written (w (CreateUser (broken_QueryRow ''dial tcp 10.0.0.5:5432: connection refused'')
                noon noon (Some ann) (start ([] :: user_row list))))
       = [[''error'' \<mapsto> JString ''Internal server error'']]
   \<and> logged (CreateUser (broken_QueryRow ''dial tcp 10.0.0.5:5432: connection refused'')
                noon noon (Some ann) (start ([] :: user_row list)))
       = [''Database error: dial tcp 10.0.0.5:5432: connection refused'']
   \<and> status (w (CreateUser (read_only table_QueryRow) noon noon (Some ann) (start [])))
       = Some 500
   \<and> written (w (CreateUser (read_only table_QueryRow) noon noon (Some ann) (start [])))
       = [[''error'' \<mapsto> JString ''Failed to create user'']]
   \<and> status (w (GetUser (broken_QueryRow ''dial tcp 10.0.0.5:5432: connection refused'')
                [''id'' \<mapsto> [''7'']] (start ([] :: user_row list)))) = Some 500
   \<and> written (w (GetUser (broken_QueryRow ''dial tcp 10.0.0.5:5432: connection refused'')
                [''id'' \<mapsto> [''7'']] (start ([] :: user_row list))))
       = [[''error'' \<mapsto> JString ''Internal server error'']]"
proof -
  let ?m = "''dial tcp 10.0.0.5:5432: connection refused''"
  let ?ro = "''cannot execute INSERT in a read-only transaction''"
  have g7: "Get [''id'' \<mapsto> [''7'']] ''id'' \<noteq> []" by (simp add: Get_def)
  have sc_int: "\<And>e. Scan_int (Inl e) = Inl e" by (simp add: Scan_int_def)
  have sc_user: "\<And>e. Scan_user (Inl e) = Inl e" by (simp add: Scan_user_def)
  have br: "\<And>q args. broken_QueryRow ?m q args ([] :: user_row list) = (Inl (Err ?m), [])"
    by (simp add: broken_QueryRow_def)
  have sel: "read_only table_QueryRow select_id_by_email [VString (Email ann)] []
               = (Inl ErrNoRows, [])"
    using statements_differ by (simp add: read_only_def table_select_id_by_email)
  have ins: "read_only table_QueryRow insert_user
               [VString (Email ann), VString (Sprintf_hashed (Password ann)), VString (Name ann),
                VInt (Age ann), VTime noon] []
             = (Inl (Err ?ro), [])"
    by (simp add: read_only_def)
  have pa: "spec_first_failure (Some ann) = None \<and>
      broken_QueryRow ?m select_id_by_email [VString (Email ann)] ([] :: user_row list)
        = (Inl (Err ?m), []) \<and>
      Scan_int (Inl (Err ?m)) = Inl (Err ?m)"
    by (intro conjI ann_valid br sc_int)
  have pb: "spec_first_failure (Some ann) = None \<and>
      read_only table_QueryRow select_id_by_email [VString (Email ann)] [] = (Inl ErrNoRows, []) \<and>
      Scan_int (Inl ErrNoRows) = Inl ErrNoRows \<and>
      read_only table_QueryRow insert_user
        [VString (Email ann), VString (Sprintf_hashed (Password ann)), VString (Name ann),
         VInt (Age ann), VTime noon] [] = (Inl (Err ?ro), []) \<and>
      Scan_int (Inl (Err ?ro)) = Inl (Err ?ro)"
    by (intro conjI ann_valid sel ins sc_int)
  have pc: "Get [''id'' \<mapsto> [''7'']] ''id'' \<noteq> [] \<and>
      broken_QueryRow ?m select_user_by_id [VString (Get [''id'' \<mapsto> [''7'']] ''id'')]
        ([] :: user_row list) = (Inl (Err ?m), []) \<and>
      Scan_user (Inl (Err ?m)) = Inl (Err ?m)"
    by (intro conjI g7 br sc_user)
  note a = C9_storage_failure_is_generic
    [where QueryRow = "broken_QueryRow ?m" and r = ann and s = "[] :: user_row list"
      and sa = "[]" and reply = "Inl (Err ?m)" and msg = ?m and ta = noon and tb = noon
      and query = "[''id'' \<mapsto> [''7'']]" and replyc = "Inl (Err ?m)" and sc = "[]"
      and msgc = ?m]
  note b = C9_storage_failure_is_generic
    [where QueryRow = "read_only table_QueryRow" and r = ann and s = "[]" and sa = "[]"
      and reply = "Inl ErrNoRows" and ta = noon and tb = noon
      and replyb = "Inl (Err ?ro)" and sb = "[]" and err = "Err ?ro"]
  note ra = a [THEN conjunct1, THEN mp, OF pa]
  note rb = b [THEN conjunct2, THEN conjunct1, THEN mp, OF pb]
  note rc = a [THEN conjunct2, THEN conjunct2, THEN mp, OF pc]
  have m: "''Database error: '' @ ?m = ''Database error: dial tcp 10.0.0.5:5432: connection refused''"
    by simp
  from ra rb rc show ?thesis unfolding m by blast
qed

subsection \<open>C10: the identifier of a lookup is not validated\<close>

text \<open>
  Claim C10. When the \<open>id\<close> parameter of a lookup is not empty, \<open>GetUser\<close> sends it
  to the store as it is, in one statement; the answer is 200, 404 or 500, never 400; and
  it is 500 whenever the store rejects the statement with an error. The users table
  rejects an identifier that is not a decimal integer, so there the answer is 500.
\<close>

theorem C10_lookup_id_not_validated:
  assumes "Get query ''id'' \<noteq> []"
  shows "snd (db (GetUser (recording QueryRow) query (start (s, []))))
           = [(select_user_by_id, [VString (Get query ''id'')])]
       \<and> status (w (GetUser QueryRow query (start s))) \<in> {Some 200, Some 404, Some 500}
       \<and> status (w (GetUser QueryRow query (start s))) \<noteq> Some 400
       \<and> (\<forall>msg s1. QueryRow select_user_by_id [VString (Get query ''id'')] s = (Inl (Err msg), s1)
            \<longrightarrow> status (w (GetUser QueryRow query (start s))) = Some 500)
       \<and> (parse_int (Get query ''id'') = None
            \<longrightarrow> status (w (GetUser table_QueryRow query (start t))) = Some 500)"
proof (intro conjI allI impI)
  have q: "recording QueryRow select_user_by_id [VString (Get query ''id'')] (db (start (s, [])))
      = (fst (QueryRow select_user_by_id [VString (Get query ''id'')] s),
         (snd (QueryRow select_user_by_id [VString (Get query ''id'')] s),
          [(select_user_by_id, [VString (Get query ''id'')])]))"
    by (simp add: recording_apply start_db)
  show "snd (db (GetUser (recording QueryRow) query (start (s, []))))
           = [(select_user_by_id, [VString (Get query ''id'')])]"
    using GetUser_query [where QueryRow = "recording QueryRow", OF assms q]
    by (simp add: error_response_db log_Printf_def
        split: sum.splits error.splits prod.splits)
  show c: "status (w (GetUser QueryRow query (start s))) \<in> {Some 200, Some 404, Some 500}"
    using assms by (rule GetUser_status_cases)
  then show "status (w (GetUser QueryRow query (start s))) \<noteq> Some 400"
    by auto
next
  fix msg s1
  assume "QueryRow select_user_by_id [VString (Get query ''id'')] s = (Inl (Err msg), s1)"
  then show "status (w (GetUser QueryRow query (start s))) = Some 500"
    using GetUser_query [where QueryRow = QueryRow and \<sigma> = "start s" and row = "Inl (Err msg)"
        and ?s1.0 = s1, OF assms]
    by (simp add: start_db Scan_user_def error_after_log_status StatusInternalServerError_def)
next
  assume "parse_int (Get query ''id'') = None"
  then have "table_QueryRow select_user_by_id [VString (Get query ''id'')] (db (start t))
      = (Inl (Err ''invalid input syntax for type integer''), t)"
    by (simp add: table_select_user_by_id start_db)
  then show "status (w (GetUser table_QueryRow query (start t))) = Some 500"
    using GetUser_query [where QueryRow = table_QueryRow and \<sigma> = "start t"
        and row = "Inl (Err ''invalid input syntax for type integer'')" and ?s1.0 = t, OF assms]
    by (simp add: Scan_user_def error_after_log_status StatusInternalServerError_def)
qed

theorem C10_lookup_id_not_validated_witness:
  "Get [''id'' \<mapsto> [''abc'']] ''id'' \<noteq> []
   \<and> parse_int ''abc'' = None
   \<and> snd (db (GetUser (recording table_QueryRow) [''id'' \<mapsto> [''abc'']] (start ([bea_row], []))))
       = [(select_user_by_id, [VString ''abc''])]
   \<and> status (w (GetUser table_QueryRow [''id'' \<mapsto> [''abc'']] (start [bea_row]))) = Some 500"
proof -
  have g: "Get [''id'' \<mapsto> [''abc'']] ''id'' = ''abc''" by (simp add: Get_def)
  then have ne: "Get [''id'' \<mapsto> [''abc'']] ''id'' \<noteq> []" by simp
  have p: "parse_int ''abc'' = None" by (simp add: parse_int_def atou_def digit_val_def)
  from C10_lookup_id_not_validated [OF ne, where QueryRow = table_QueryRow and s = "[bea_row]"
      and t = "[bea_row]"] g p
  show ?thesis by simp
qed

end
